theory Spec2Isabelle
  imports Complex_Main
begin

section \<open>The launch plan of \<open>launch/gazebo_launch.py\<close>\<close>

text \<open>
  The script has one function, \<^verbatim>\<open>generate_launch_description\<close>. It builds a list of
  \<^verbatim>\<open>ExecuteProcess\<close> and \<^verbatim>\<open>Node\<close> objects (five global ones, then three for each
  drone of the roster) and wraps the list in a \<^verbatim>\<open>LaunchDescription\<close>. The classes
  themselves belong to the launch runtime; here they are plain data that keeps the
  keyword arguments each constructor call passes.
\<close>

subsection \<open>Data\<close>

text \<open>
  A parameter value of the script is one of: a \<^verbatim>\<open>bool\<close> (\<^verbatim>\<open>True\<close>), an \<^verbatim>\<open>int\<close>
  (\<^verbatim>\<open>0\<close>, \<^verbatim>\<open>1\<close>), a float literal (\<^verbatim>\<open>0.1778\<close>, \<^verbatim>\<open>-0.035\<close>; kept as the decimal number the
  literal denotes), a \<^verbatim>\<open>str\<close>, or a list of \<^verbatim>\<open>str\<close> (the roster).
\<close>

datatype param_value =
    PBool bool
  | PInt int
  | PFloat real
  | PStr string
  | PStrList "string list"

text \<open>A Python \<^verbatim>\<open>dict\<close> literal, in the order its keys are written.\<close>

type_synonym param_dict = "(string \<times> param_value) list"

text \<open>\<^verbatim>\<open>ExecuteProcess(cmd=[...], output=...)\<close>\<close>

record execute_process =
  cmd :: "string list"
  process_output :: string

text \<open>
  \<^verbatim>\<open>Node(package=..., node_executable=..., output=..., node_name=..., node_namespace=...,
  arguments=[...], parameters=[{...}])\<close>. A keyword the call leaves out is \<open>None\<close>.
\<close>

record node =
  package :: string
  node_executable :: string
  node_output :: string
  node_name :: "string option"
  node_namespace :: "string option"
  arguments :: "string list option"
  parameters :: "param_dict list option"

datatype entity = ExecuteProcess execute_process | Node node

datatype launch_description = LaunchDescription (entities: "entity list")

text \<open>
  \<^verbatim>\<open>get_package_share_directory\<close> is imported from \<^verbatim>\<open>ament_index_python\<close>: it returns the
  share directory of a package or raises \<^verbatim>\<open>PackageNotFoundError\<close>. It is the only call of
  the script that can raise, and it is a parameter of the model.
\<close>

datatype error = PackageNotFoundError string

type_synonym share_directory_lookup = "string \<Rightarrow> error + string"

subsection \<open>Library functions the script calls\<close>

text \<open>Python's \<^verbatim>\<open>str\<close> on an \<^verbatim>\<open>int\<close>: the decimal numeral, with a minus sign when negative.\<close>

definition digit_char :: "nat \<Rightarrow> char" where
  "digit_char d = ''0123456789'' ! d"

fun str_nat :: "nat \<Rightarrow> string" where
  "str_nat n = (if n < 10 then [digit_char n] else str_nat (n div 10) @ [digit_char (n mod 10)])"

declare str_nat.simps [simp del]

definition str :: "int \<Rightarrow> string" where
  "str i = (if i < 0 then CHR ''-'' # str_nat (nat (- i)) else str_nat (nat i))"

text \<open>
  \<^verbatim>\<open>os.path.join(a, *p)\<close> on a POSIX system: a component that starts with \<^verbatim>\<open>/\<close> replaces
  what has been joined so far; otherwise it is appended, after a \<^verbatim>\<open>/\<close> unless the path
  so far is empty or already ends with one.
\<close>

definition join_step :: "string \<Rightarrow> string \<Rightarrow> string" where
  "join_step path b =
     (if b \<noteq> [] \<and> hd b = CHR ''/'' then b
      else if path = [] \<or> last path = CHR ''/'' then path @ b
      else path @ ''/'' @ b)"

definition join :: "string \<Rightarrow> string list \<Rightarrow> string" where
  "join a p = foldl join_step a p"

subsection \<open>The body of \<^verbatim>\<open>generate_launch_description\<close>\<close>

text \<open>
  \<^verbatim>\<open>world_path = os.path.join(tello_gazebo_path, 'worlds', 'fiducial.world')\<close> and
  \<^verbatim>\<open>map_path = os.path.join(tello_gazebo_path, 'worlds', 'fiducial_map.yaml')\<close>
\<close>

definition world_path :: "string \<Rightarrow> string" where
  "world_path tello_gazebo_path = join tello_gazebo_path [''worlds'', ''fiducial.world'']"

definition map_path :: "string \<Rightarrow> string" where
  "map_path tello_gazebo_path = join tello_gazebo_path [''worlds'', ''fiducial_map.yaml'']"

text \<open>The list literal assigned to \<^verbatim>\<open>entities\<close> (lines 22 to 56), one definition per element.\<close>

definition gazebo_process :: "string \<Rightarrow> entity" where
  "gazebo_process tello_gazebo_path = ExecuteProcess
     \<lparr> cmd = [''gazebo'', ''--verbose'',
               ''-s'', ''libgazebo_ros_init.so'',
               ''-s'', ''libgazebo_ros_factory.so'',
               world_path tello_gazebo_path],
       process_output = ''screen'' \<rparr>"

definition vmap_node :: "string \<Rightarrow> entity" where
  "vmap_node tello_gazebo_path = Node
     \<lparr> package = ''fiducial_vlam'', node_executable = ''vmap_node'', node_output = ''screen'',
       node_name = Some ''vmap_node'', node_namespace = None, arguments = None,
       parameters = Some [[
         (''use_sim_time'', PBool True),
         (''marker_length'', PFloat 0.1778),
         (''marker_map_load_full_filename'', PStr (map_path tello_gazebo_path)),
         (''make_not_use_map'', PInt 0)]] \<rparr>"

definition rviz_process :: entity where
  "rviz_process = ExecuteProcess
     \<lparr> cmd = [''rviz2'', ''-d'', ''install/flock2/share/flock2/launch/two.rviz''],
       process_output = ''screen'' \<rparr>"

definition joy_node :: entity where
  "joy_node = Node
     \<lparr> package = ''joy'', node_executable = ''joy_node'', node_output = ''screen'',
       node_name = Some ''joy_node'', node_namespace = None, arguments = None,
       parameters = Some [[(''use_sim_time'', PBool True)]] \<rparr>"

definition flock_base :: "string list \<Rightarrow> entity" where
  "flock_base drones = Node
     \<lparr> package = ''flock2'', node_executable = ''flock_base'', node_output = ''screen'',
       node_name = Some ''flock_base'', node_namespace = None, arguments = None,
       parameters = Some [[
         (''use_sim_time'', PBool True),
         (''drones'', PStrList drones)]] \<rparr>"

definition global_entities :: "string list \<Rightarrow> string \<Rightarrow> entity list" where
  "global_entities drones tello_gazebo_path =
     [gazebo_process tello_gazebo_path,
      vmap_node tello_gazebo_path,
      rviz_process,
      joy_node,
      flock_base drones]"

text \<open>
  The loop body (lines 60 to 91), for the index \<open>idx\<close> and the name \<open>namespace\<close> that
  \<^verbatim>\<open>enumerate(drones)\<close> yields: \<^verbatim>\<open>suffix = '_' + str(idx + 1)\<close>,
  \<^verbatim>\<open>urdf_path = os.path.join(tello_description_path, 'urdf', 'tello' + suffix + '.urdf')\<close>,
  and the three objects of the list passed to \<^verbatim>\<open>entities.extend\<close>. The odometry filter
  that follows them in the source is a comment.
\<close>

definition suffix :: "nat \<Rightarrow> string" where
  "suffix idx = ''_'' @ str (int idx + 1)"

definition urdf_path :: "string \<Rightarrow> nat \<Rightarrow> string" where
  "urdf_path tello_description_path idx =
     join tello_description_path [''urdf'', ''tello'' @ suffix idx @ ''.urdf'']"

definition inject_entity :: "string \<Rightarrow> nat \<Rightarrow> entity" where
  "inject_entity tello_description_path idx = Node
     \<lparr> package = ''tello_gazebo'', node_executable = ''inject_entity.py'', node_output = ''screen'',
       node_name = None, node_namespace = None,
       arguments = Some [urdf_path tello_description_path idx, ''0'', str (int idx), ''1''],
       parameters = None \<rparr>"

definition vloc_node :: "nat \<Rightarrow> string \<Rightarrow> entity" where
  "vloc_node idx namespace = Node
     \<lparr> package = ''fiducial_vlam'', node_executable = ''vloc_node'', node_output = ''screen'',
       node_name = Some ''vloc_node'', node_namespace = Some namespace, arguments = None,
       parameters = Some [[
         (''use_sim_time'', PBool True),
         (''publish_tfs'', PInt 1),
         (''base_frame_id'', PStr (''base_link'' @ suffix idx)),
         (''map_init_pose_z'', PFloat (- 0.035)),
         (''camera_frame_id'', PStr (''camera_link'' @ suffix idx))]] \<rparr>"

definition drone_base :: "string \<Rightarrow> entity" where
  "drone_base namespace = Node
     \<lparr> package = ''flock2'', node_executable = ''drone_base'', node_output = ''screen'',
       node_name = Some ''drone_base'', node_namespace = Some namespace, arguments = None,
       parameters = Some [[(''use_sim_time'', PBool True)]] \<rparr>"

definition drone_entities :: "string \<Rightarrow> nat \<Rightarrow> string \<Rightarrow> entity list" where
  "drone_entities tello_description_path idx namespace =
     [inject_entity tello_description_path idx,
      vloc_node idx namespace,
      drone_base namespace]"

text \<open>
  The whole list: \<^verbatim>\<open>entities\<close> starts as the global list and the loop over
  \<^verbatim>\<open>enumerate(drones)\<close> extends it in place, once per drone.
\<close>

definition build_entities :: "string list \<Rightarrow> string \<Rightarrow> string \<Rightarrow> entity list" where
  "build_entities drones tello_gazebo_path tello_description_path =
     foldl (\<lambda>entities (idx, namespace).
              entities @ drone_entities tello_description_path idx namespace)
           (global_entities drones tello_gazebo_path)
           (enumerate 0 drones)"

text \<open>
  The function with its roster as an argument: the two package lookups in the order of
  the source (either may raise, and then nothing is built), then the list, wrapped.
\<close>

definition generate_launch_description_for ::
  "share_directory_lookup \<Rightarrow> string list \<Rightarrow> error + launch_description" where
  "generate_launch_description_for get_package_share_directory drones =
     (case get_package_share_directory ''tello_gazebo'' of
        Inl e \<Rightarrow> Inl e
      | Inr tello_gazebo_path \<Rightarrow>
          (case get_package_share_directory ''tello_description'' of
             Inl e \<Rightarrow> Inl e
           | Inr tello_description_path \<Rightarrow>
               Inr (LaunchDescription
                      (build_entities drones tello_gazebo_path tello_description_path))))"

text \<open>The function as the script has it: \<^verbatim>\<open>drones = ['drone1', 'drone2']\<close>.\<close>

definition generate_launch_description :: "share_directory_lookup \<Rightarrow> error + launch_description" where
  "generate_launch_description get_package_share_directory =
     generate_launch_description_for get_package_share_directory [''drone1'', ''drone2'']"

subsection \<open>Reading a plan\<close>

text \<open>
  The value a node's parameter dict gives to a key. Every \<^verbatim>\<open>Node\<close> of the script that
  has parameters passes a list of exactly one dict.
\<close>

definition node_param :: "node \<Rightarrow> string \<Rightarrow> param_value option" where
  "node_param n key = (case parameters n of Some [d] \<Rightarrow> map_of d key | _ \<Rightarrow> None)"

text \<open>The descriptors of a returned plan (none when the call raised).\<close>

definition plan_entities :: "error + launch_description \<Rightarrow> entity list" where
  "plan_entities r = (case r of Inl e \<Rightarrow> [] | Inr plan \<Rightarrow> entities plan)"

definition entity_namespace :: "entity \<Rightarrow> string option" where
  "entity_namespace e = (case e of ExecuteProcess p \<Rightarrow> None | Node n \<Rightarrow> node_namespace n)"

text \<open>What a descriptor runs: the first token of a process's command, a node's executable.\<close>

definition entity_executable :: "entity \<Rightarrow> string" where
  "entity_executable e = (case e of ExecuteProcess p \<Rightarrow> hd (cmd p) | Node n \<Rightarrow> node_executable n)"

text \<open>The value a descriptor gives to a parameter: a process has no parameters.\<close>

definition entity_param :: "entity \<Rightarrow> string \<Rightarrow> param_value option" where
  "entity_param e key = (case e of ExecuteProcess p \<Rightarrow> None | Node n \<Rightarrow> node_param n key)"

text \<open>A package lookup for concrete runs, under which every package has a share directory.\<close>

definition share_under_opt :: share_directory_lookup where
  "share_under_opt pkg = Inr (''/opt/ros/share/'' @ pkg)"

subsection \<open>The loop as one concatenation\<close>

lemma foldl_extend:
  "foldl (\<lambda>acc x. acc @ f x) a xs = a @ concat (map f xs)"
  by (induction xs arbitrary: a) simp_all

lemma build_entities_concat:
  "build_entities drones gz desc =
     global_entities drones gz
       @ concat (map (\<lambda>(idx, namespace). drone_entities desc idx namespace) (enumerate 0 drones))"
proof -
  have "(\<lambda>entities (idx, namespace). entities @ drone_entities desc idx namespace)
          = (\<lambda>acc x. acc @ (\<lambda>(idx, namespace). drone_entities desc idx namespace) x)"
    by (simp add: fun_eq_iff)
  then show ?thesis
    unfolding build_entities_def by (simp only: foldl_extend)
qed

lemma length_global_entities: "length (global_entities drones gz) = 5"
  by (simp add: global_entities_def)

lemma length_drone_entities: "length (drone_entities desc idx namespace) = 3"
  by (simp add: drone_entities_def)

lemma length_concat_blocks:
  "(\<And>x. x \<in> set xs \<Longrightarrow> length (f x) = k) \<Longrightarrow> length (concat (map f xs)) = k * length xs"
  by (induction xs) simp_all

lemma length_build_entities:
  "length (build_entities drones gz desc) = 5 + 3 * length drones"
proof -
  have "length (concat (map (\<lambda>(idx, namespace). drone_entities desc idx namespace)
                            (enumerate 0 drones))) = 3 * length (enumerate 0 drones)"
    by (rule length_concat_blocks) (simp add: length_drone_entities split: prod.split)
  then show ?thesis
    by (simp add: build_entities_concat length_global_entities)
qed

lemma generate_for_resolved:
  assumes "lookup ''tello_gazebo'' = Inr gz" and "lookup ''tello_description'' = Inr desc"
  shows "generate_launch_description_for lookup drones
           = Inr (LaunchDescription (build_entities drones gz desc))"
  using assms by (simp add: generate_launch_description_for_def)

subsection \<open>Where each descriptor sits in the list\<close>

lemma take_drop_concat_blocks:
  "(\<And>x. x \<in> set xs \<Longrightarrow> length (f x) = k) \<Longrightarrow> i < length xs
     \<Longrightarrow> take k (drop (k * i) (concat (map f xs))) = f (xs ! i)"
proof (induction xs arbitrary: i)
  case Nil
  then show ?case by simp
next
  case (Cons x xs)
  have lx: "length (f x) = k" using Cons.prems(1) by simp
  show ?case
  proof (cases i)
    case 0
    then show ?thesis using lx by simp
  next
    case (Suc i')
    have "take k (drop (k * i') (concat (map f xs))) = f (xs ! i')"
      using Cons.IH [of i'] Cons.prems Suc by simp
    then show ?thesis using Suc lx by (simp add: add.commute)
  qed
qed

lemma enumerate_block:
  assumes "i < length drones"
  shows "take 3 (drop (5 + 3 * i) (build_entities drones gz desc)) = drone_entities desc i (drones ! i)"
proof -
  let ?f = "\<lambda>(idx, namespace). drone_entities desc idx namespace"
  have "take 3 (drop (3 * i) (concat (map ?f (enumerate 0 drones)))) = ?f (enumerate 0 drones ! i)"
    by (rule take_drop_concat_blocks) (simp_all add: assms length_drone_entities split: prod.split)
  then show ?thesis
    using assms by (simp add: build_entities_concat length_global_entities nth_enumerate_eq)
qed

lemma build_entities_global:
  "take 5 (build_entities drones gz desc) = global_entities drones gz"
  by (simp add: build_entities_concat length_global_entities)

lemma build_entities_nth_drone:
  assumes "i < length drones" and "j < 3"
  shows "build_entities drones gz desc ! (5 + 3 * i + j) = drone_entities desc i (drones ! i) ! j"
proof -
  have "5 + 3 * i + j < length (build_entities drones gz desc)"
    using assms by (simp add: length_build_entities)
  then have "build_entities drones gz desc ! (5 + 3 * i + j)
        = take 3 (drop (5 + 3 * i) (build_entities drones gz desc)) ! j"
    using assms(2) by (simp add: add.commute)
  then show ?thesis by (simp add: enumerate_block [OF assms(1)])
qed

lemma build_entities_nth_global:
  assumes "j < 5"
  shows "build_entities drones gz desc ! j = global_entities drones gz ! j"
  using assms by (simp add: build_entities_concat nth_append length_global_entities)

subsection \<open>Strings and paths\<close>

lemma str_nat_last: "last (str_nat n) = digit_char (n mod 10)"
  by (subst str_nat.simps) simp

lemma digit_char_succ: "digit_char (n mod 10) \<noteq> digit_char (Suc n mod 10)"
proof -
  have "n mod 10 \<in> {0,1,2,3,4,5,6,7,8,9}" by (simp add: atLeastLessThan_def[symmetric]) arith
  then show ?thesis
    by (auto simp: digit_char_def mod_Suc)
qed

lemma str_succ_neq: "str (int i) \<noteq> str (int i + 1)"
proof
  assume "str (int i) = str (int i + 1)"
  then have "str_nat i = str_nat (Suc i)"
    by (simp add: str_def nat_add_distrib)
  then have "last (str_nat i) = last (str_nat (Suc i))" by simp
  then show False by (simp add: str_nat_last digit_char_succ)
qed


lemma urdf_path_basename:
  "urdf_path desc idx = join desc [''urdf''] @ ''/tello'' @ suffix idx @ ''.urdf''"
  by (simp add: urdf_path_def join_def join_step_def)

subsection \<open>What the list holds\<close>

lemma in_build_entities:
  assumes "e \<in> set (build_entities drones gz desc)"
  shows "e \<in> set (global_entities drones gz)
         \<or> (\<exists>i<length drones. e \<in> set (drone_entities desc i (drones ! i)))"
  using assms by (auto simp: build_entities_concat in_set_enumerate_eq)

lemma executable_in_plan:
  assumes "e \<in> set (build_entities drones gz desc)"
  shows "entity_executable e \<in> {''gazebo'', ''vmap_node'', ''rviz2'', ''joy_node'', ''flock_base'',
                                  ''inject_entity.py'', ''vloc_node'', ''drone_base''}"
proof -
  from in_build_entities [OF assms]
  consider "e \<in> set (global_entities drones gz)"
    | i where "e \<in> set (drone_entities desc i (drones ! i))"
    by blast
  then show ?thesis
  proof cases
    case 1
    then show ?thesis
      by (auto simp: global_entities_def gazebo_process_def vmap_node_def rviz_process_def
            joy_node_def flock_base_def entity_executable_def)
  next
    case 2
    then show ?thesis
      by (auto simp: drone_entities_def inject_entity_def vloc_node_def drone_base_def
            entity_executable_def)
  qed
qed

section \<open>Properties of the plan\<close>

text \<open>
  C1. For a roster of any length \<open>N\<close> (zero included), once the two share directories
  resolve, the function returns a plan, and the plan holds exactly \<open>5 + 3 * N\<close>
  descriptors: the five global ones and three for each drone. The odometry filter
  (\<^verbatim>\<open>filter_node\<close>) is a comment in the source, and no descriptor of the plan runs it.
\<close>

theorem plan_length:
  assumes "lookup ''tello_gazebo'' = Inr gz" and "lookup ''tello_description'' = Inr desc"
  shows "\<exists>es. generate_launch_description_for lookup drones = Inr (LaunchDescription es)
              \<and> length es = 5 + 3 * length drones
              \<and> (\<forall>e\<in>set es. entity_executable e \<noteq> ''filter_node'')"
proof -
  have "\<forall>e\<in>set (build_entities drones gz desc). entity_executable e \<noteq> ''filter_node''"
    using executable_in_plan [of _ drones gz desc] by fastforce
  then show ?thesis
    by (simp add: generate_for_resolved [OF assms] length_build_entities)
qed

theorem plan_length_witness:
  "share_under_opt ''tello_gazebo'' = Inr ''/opt/ros/share/tello_gazebo''
   \<and> share_under_opt ''tello_description'' = Inr ''/opt/ros/share/tello_description''
   \<and> (\<exists>es. generate_launch_description_for share_under_opt [''drone1'', ''drone2'', ''drone3'']
               = Inr (LaunchDescription es)
            \<and> length es = 14
            \<and> es ! 13 \<in> set es
            \<and> entity_executable (es ! 13) \<noteq> ''filter_node'')"
proof -
  have gz: "share_under_opt ''tello_gazebo'' = Inr ''/opt/ros/share/tello_gazebo''"
    by (simp add: share_under_opt_def)
  have desc: "share_under_opt ''tello_description'' = Inr ''/opt/ros/share/tello_description''"
    by (simp add: share_under_opt_def)
  from plan_length [OF gz desc, of "[''drone1'', ''drone2'', ''drone3'']"] obtain es where
    run: "generate_launch_description_for share_under_opt [''drone1'', ''drone2'', ''drone3'']
            = Inr (LaunchDescription es)"
    and len: "length es = 14"
    and nofilter: "\<forall>e\<in>set es. entity_executable e \<noteq> ''filter_node''"
    by auto
  have mem: "es ! 13 \<in> set es"
    using len by simp
  with nofilter have "entity_executable (es ! 13) \<noteq> ''filter_node''" by blast
  with gz desc run len mem show ?thesis by blast
qed

text \<open>
  C2. For the drone at zero-based index \<open>i\<close>, the suffix appended to the base frame id,
  to the camera frame id and to the base name of the URDF file is \<open>_\<close> followed by the
  decimal numeral of \<open>i + 1\<close>: the first argument of the drone's \<^verbatim>\<open>inject_entity.py\<close> node
  is a path that ends in \<open>/tello_<i+1>.urdf\<close>, and its \<^verbatim>\<open>vloc_node\<close> has
  \<open>base_frame_id = base_link_<i+1>\<close> and \<open>camera_frame_id = camera_link_<i+1>\<close>. Index 0
  gives the suffix \<open>_1\<close> and index 1 gives \<open>_2\<close>.
\<close>

theorem suffix_is_index_plus_one:
  assumes "lookup ''tello_gazebo'' = Inr gz" and "lookup ''tello_description'' = Inr desc"
    and "i < length drones"
  shows "\<exists>es inj loc args.
           generate_launch_description_for lookup drones = Inr (LaunchDescription es)
           \<and> es ! (5 + 3 * i) = Node inj \<and> node_executable inj = ''inject_entity.py''
           \<and> arguments inj = Some args
           \<and> hd args = join desc [''urdf''] @ ''/tello'' @ (''_'' @ str (int i + 1)) @ ''.urdf''
           \<and> es ! (5 + 3 * i + 1) = Node loc \<and> node_executable loc = ''vloc_node''
           \<and> node_param loc ''base_frame_id'' = Some (PStr (''base_link'' @ (''_'' @ str (int i + 1))))
           \<and> node_param loc ''camera_frame_id'' = Some (PStr (''camera_link'' @ (''_'' @ str (int i + 1))))
           \<and> suffix 0 = ''_1'' \<and> suffix 1 = ''_2''"
proof -
  define es where "es = build_entities drones gz desc"
  have run: "generate_launch_description_for lookup drones = Inr (LaunchDescription es)"
    by (simp add: es_def generate_for_resolved [OF assms(1,2)])
  obtain inj args where inj: "es ! (5 + 3 * i) = Node inj"
    "node_executable inj = ''inject_entity.py''" "arguments inj = Some args"
    "hd args = join desc [''urdf''] @ ''/tello'' @ (''_'' @ str (int i + 1)) @ ''.urdf''"
    using build_entities_nth_drone [OF assms(3), of 0 gz desc]
    by (simp add: es_def drone_entities_def inject_entity_def urdf_path_basename suffix_def)
  obtain loc where loc: "es ! (5 + 3 * i + 1) = Node loc" "node_executable loc = ''vloc_node''"
    "node_param loc ''base_frame_id'' = Some (PStr (''base_link'' @ (''_'' @ str (int i + 1))))"
    "node_param loc ''camera_frame_id'' = Some (PStr (''camera_link'' @ (''_'' @ str (int i + 1))))"
    using build_entities_nth_drone [OF assms(3), of 1 gz desc]
    by (simp add: es_def drone_entities_def vloc_node_def node_param_def suffix_def)
  have s: "suffix 0 = ''_1''" "suffix 1 = ''_2''"
    by (simp_all add: suffix_def str_def str_nat.simps digit_char_def)
  from run inj loc s show ?thesis by blast
qed


theorem suffix_is_index_plus_one_witness:
  "share_under_opt ''tello_gazebo'' = Inr ''/opt/ros/share/tello_gazebo''
   \<and> share_under_opt ''tello_description'' = Inr ''/opt/ros/share/tello_description''
   \<and> (0::nat) < length [''drone1'', ''drone2'']
   \<and> (\<exists>es inj loc args.
         generate_launch_description_for share_under_opt [''drone1'', ''drone2'']
           = Inr (LaunchDescription es)
         \<and> es ! 5 = Node inj \<and> arguments inj = Some args
         \<and> hd args = ''/opt/ros/share/tello_description/urdf/tello_1.urdf''
         \<and> es ! 6 = Node loc
         \<and> node_param loc ''base_frame_id'' = Some (PStr ''base_link_1'')
         \<and> node_param loc ''camera_frame_id'' = Some (PStr ''camera_link_1''))"
proof -
  have gz: "share_under_opt ''tello_gazebo'' = Inr ''/opt/ros/share/tello_gazebo''"
    by (simp add: share_under_opt_def)
  have desc: "share_under_opt ''tello_description'' = Inr ''/opt/ros/share/tello_description''"
    by (simp add: share_under_opt_def)
  have i: "(0::nat) < length [''drone1'', ''drone2'']" by simp
  have one: "str (int 0 + 1) = ''1''"
    by (simp add: str_def str_nat.simps digit_char_def)
  have j: "join ''/opt/ros/share/tello_description'' [''urdf'']
             = ''/opt/ros/share/tello_description/urdf''"
    by (simp add: join_def join_step_def)
  from suffix_is_index_plus_one [OF gz desc i]
  obtain es inj loc args where
    "generate_launch_description_for share_under_opt [''drone1'', ''drone2'']
       = Inr (LaunchDescription es)"
    "es ! 5 = Node inj" "arguments inj = Some args"
    "hd args = ''/opt/ros/share/tello_description/urdf/tello_1.urdf''"
    "es ! 6 = Node loc"
    "node_param loc ''base_frame_id'' = Some (PStr ''base_link_1'')"
    "node_param loc ''camera_frame_id'' = Some (PStr ''camera_link_1'')"
    unfolding one j by auto
  with gz desc i show ?thesis by blast
qed

text \<open>
  C3. For the drone at zero-based index \<open>i\<close>, the arguments of its \<^verbatim>\<open>inject_entity.py\<close>
  node are the URDF path, \<open>0\<close>, the decimal numeral of \<open>i\<close> itself, and \<open>1\<close>: the third
  argument is \<open>str(i)\<close>, which differs from the numeral \<open>str(i + 1)\<close> that the suffix
  carries.
\<close>

theorem spawn_argument_is_index:
  assumes "lookup ''tello_gazebo'' = Inr gz" and "lookup ''tello_description'' = Inr desc"
    and "i < length drones"
  shows "\<exists>es inj path.
           generate_launch_description_for lookup drones = Inr (LaunchDescription es)
           \<and> es ! (5 + 3 * i) = Node inj \<and> node_executable inj = ''inject_entity.py''
           \<and> arguments inj = Some [path, ''0'', str (int i), ''1'']
           \<and> str (int i) \<noteq> str (int i + 1)
           \<and> suffix i = ''_'' @ str (int i + 1)"
proof -
  define es where "es = build_entities drones gz desc"
  have run: "generate_launch_description_for lookup drones = Inr (LaunchDescription es)"
    by (simp add: es_def generate_for_resolved [OF assms(1,2)])
  obtain inj path where inj: "es ! (5 + 3 * i) = Node inj"
    "node_executable inj = ''inject_entity.py''"
    "arguments inj = Some [path, ''0'', str (int i), ''1'']"
    using build_entities_nth_drone [OF assms(3), of 0 gz desc]
    by (simp add: es_def drone_entities_def inject_entity_def)
  have s: "suffix i = ''_'' @ str (int i + 1)"
    by (simp add: suffix_def)
  from run inj s str_succ_neq [of i] show ?thesis by blast
qed

theorem spawn_argument_is_index_witness:
  "share_under_opt ''tello_gazebo'' = Inr ''/opt/ros/share/tello_gazebo''
   \<and> share_under_opt ''tello_description'' = Inr ''/opt/ros/share/tello_description''
   \<and> (1::nat) < length [''drone1'', ''drone2'']
   \<and> (\<exists>es inj path.
         generate_launch_description_for share_under_opt [''drone1'', ''drone2'']
           = Inr (LaunchDescription es)
         \<and> es ! 8 = Node inj
         \<and> arguments inj = Some [path, ''0'', ''1'', ''1'']
         \<and> suffix 1 = ''_2'')"
proof -
  have gz: "share_under_opt ''tello_gazebo'' = Inr ''/opt/ros/share/tello_gazebo''"
    by (simp add: share_under_opt_def)
  have desc: "share_under_opt ''tello_description'' = Inr ''/opt/ros/share/tello_description''"
    by (simp add: share_under_opt_def)
  have i: "(1::nat) < length [''drone1'', ''drone2'']" by simp
  have one: "str (int 1) = ''1''" "str (int 1 + 1) = ''2''"
    by (simp_all add: str_def str_nat.simps digit_char_def)
  from spawn_argument_is_index [OF gz desc i]
  obtain es inj path where
    "generate_launch_description_for share_under_opt [''drone1'', ''drone2'']
       = Inr (LaunchDescription es)"
    "es ! 8 = Node inj" "arguments inj = Some [path, ''0'', ''1'', ''1'']" "suffix 1 = ''_2''"
    unfolding one by auto
  with gz desc i show ?thesis by blast
qed

text \<open>
  C4. For every roster, the fifth descriptor of the plan is the coordinator node
  \<^verbatim>\<open>flock_base\<close>, and its parameter \<open>drones\<close> is the roster itself: the same names in
  the same order.
\<close>

theorem coordinator_drones_parameter:
  assumes "lookup ''tello_gazebo'' = Inr gz" and "lookup ''tello_description'' = Inr desc"
  shows "\<exists>es n.
           generate_launch_description_for lookup drones = Inr (LaunchDescription es)
           \<and> es ! 4 = Node n \<and> package n = ''flock2'' \<and> node_executable n = ''flock_base''
           \<and> node_name n = Some ''flock_base''
           \<and> node_param n ''drones'' = Some (PStrList drones)"
proof -
  have "build_entities drones gz desc ! 4 = flock_base drones"
    using build_entities_nth_global [of 4 drones gz desc] by (simp add: global_entities_def)
  then show ?thesis
    by (simp add: generate_for_resolved [OF assms] flock_base_def node_param_def)
qed

theorem coordinator_drones_parameter_witness:
  "share_under_opt ''tello_gazebo'' = Inr ''/opt/ros/share/tello_gazebo''
   \<and> share_under_opt ''tello_description'' = Inr ''/opt/ros/share/tello_description''
   \<and> (\<exists>es n.
         generate_launch_description_for share_under_opt [''b'', ''a'', ''b'']
           = Inr (LaunchDescription es)
         \<and> es ! 4 = Node n
         \<and> node_param n ''drones'' = Some (PStrList [''b'', ''a'', ''b'']))"
proof -
  have gz: "share_under_opt ''tello_gazebo'' = Inr ''/opt/ros/share/tello_gazebo''"
    by (simp add: share_under_opt_def)
  have desc: "share_under_opt ''tello_description'' = Inr ''/opt/ros/share/tello_description''"
    by (simp add: share_under_opt_def)
  from coordinator_drones_parameter [OF gz desc, of "[''b'', ''a'', ''b'']"] gz desc
  show ?thesis by blast
qed

text \<open>
  C5, as stated: every node emitted for a drone, the \<^verbatim>\<open>inject_entity.py\<close> node included,
  has the drone's name as its namespace. The script passes no \<^verbatim>\<open>node_namespace\<close> to
  the \<^verbatim>\<open>inject_entity.py\<close> node: in the plan of the script's own roster, the sixth
  descriptor is that node for \<open>drone1\<close>, and its namespace is not \<open>drone1\<close>.
\<close>

theorem namespace_of_spawn_node_counterexample:
  "entity_executable (plan_entities (generate_launch_description share_under_opt) ! 5)
     = ''inject_entity.py''
   \<and> entity_namespace (plan_entities (generate_launch_description share_under_opt) ! 5)
     \<noteq> Some ''drone1''"
  by (simp add: generate_launch_description_def generate_launch_description_for_def
        share_under_opt_def build_entities_def global_entities_def drone_entities_def
        plan_entities_def entity_executable_def entity_namespace_def inject_entity_def)

text \<open>
  C5, amended. For the drone at index \<open>i\<close>, its \<^verbatim>\<open>vloc_node\<close> and its \<^verbatim>\<open>drone_base\<close>
  node have a namespace equal to the drone's name itself, with no suffix derived from
  the index; its \<^verbatim>\<open>inject_entity.py\<close> node is emitted with no namespace.
\<close>

theorem namespace_is_name:
  assumes "lookup ''tello_gazebo'' = Inr gz" and "lookup ''tello_description'' = Inr desc"
    and "i < length drones"
  shows "\<exists>es inj loc ctl.
           generate_launch_description_for lookup drones = Inr (LaunchDescription es)
           \<and> es ! (5 + 3 * i) = Node inj \<and> node_executable inj = ''inject_entity.py''
           \<and> node_namespace inj = None
           \<and> es ! (5 + 3 * i + 1) = Node loc \<and> node_executable loc = ''vloc_node''
           \<and> node_namespace loc = Some (drones ! i)
           \<and> es ! (5 + 3 * i + 2) = Node ctl \<and> node_executable ctl = ''drone_base''
           \<and> node_namespace ctl = Some (drones ! i)"
proof -
  define es where "es = build_entities drones gz desc"
  have run: "generate_launch_description_for lookup drones = Inr (LaunchDescription es)"
    by (simp add: es_def generate_for_resolved [OF assms(1,2)])
  obtain inj where inj: "es ! (5 + 3 * i) = Node inj"
    "node_executable inj = ''inject_entity.py''" "node_namespace inj = None"
    using build_entities_nth_drone [OF assms(3), of 0 gz desc]
    by (simp add: es_def drone_entities_def inject_entity_def)
  obtain loc where loc: "es ! (5 + 3 * i + 1) = Node loc" "node_executable loc = ''vloc_node''"
    "node_namespace loc = Some (drones ! i)"
    using build_entities_nth_drone [OF assms(3), of 1 gz desc]
    by (simp add: es_def drone_entities_def vloc_node_def)
  obtain ctl where ctl: "es ! (5 + 3 * i + 2) = Node ctl" "node_executable ctl = ''drone_base''"
    "node_namespace ctl = Some (drones ! i)"
    using build_entities_nth_drone [OF assms(3), of 2 gz desc]
    by (simp add: es_def drone_entities_def drone_base_def)
  from run inj loc ctl show ?thesis by blast
qed

theorem namespace_is_name_witness:
  "share_under_opt ''tello_gazebo'' = Inr ''/opt/ros/share/tello_gazebo''
   \<and> share_under_opt ''tello_description'' = Inr ''/opt/ros/share/tello_description''
   \<and> (1::nat) < length [''alpha'', ''beta'']
   \<and> (\<exists>es inj loc ctl.
         generate_launch_description_for share_under_opt [''alpha'', ''beta'']
           = Inr (LaunchDescription es)
         \<and> es ! 8 = Node inj \<and> node_namespace inj = None
         \<and> es ! 9 = Node loc \<and> node_namespace loc = Some ''beta''
         \<and> es ! 10 = Node ctl \<and> node_namespace ctl = Some ''beta'')"
proof -
  have gz: "share_under_opt ''tello_gazebo'' = Inr ''/opt/ros/share/tello_gazebo''"
    by (simp add: share_under_opt_def)
  have desc: "share_under_opt ''tello_description'' = Inr ''/opt/ros/share/tello_description''"
    by (simp add: share_under_opt_def)
  have i: "(1::nat) < length [''alpha'', ''beta'']" by simp
  from namespace_is_name [OF gz desc i]
  obtain es inj loc ctl where
    "generate_launch_description_for share_under_opt [''alpha'', ''beta'']
       = Inr (LaunchDescription es)"
    "es ! 8 = Node inj" "node_namespace inj = None"
    "es ! 9 = Node loc" "node_namespace loc = Some ''beta''"
    "es ! 10 = Node ctl" "node_namespace ctl = Some ''beta''"
    by auto
  with gz desc i show ?thesis by blast
qed

text \<open>
  C6. With the script's roster \<open>['drone1', 'drone2']\<close>, the plan has eleven descriptors;
  the tenth is the \<^verbatim>\<open>vloc_node\<close> with namespace \<open>drone2\<close>, \<open>base_frame_id = base_link_2\<close>
  and \<open>camera_frame_id = camera_link_2\<close>, and the ninth is the \<^verbatim>\<open>inject_entity.py\<close> node
  of the same drone, whose arguments are the path of \<open>tello_2.urdf\<close>, \<open>0\<close>, \<open>1\<close>, \<open>1\<close>: they
  end with the index 1 and the fixed last argument \<open>1\<close>.
\<close>

theorem two_drone_scenario:
  assumes "lookup ''tello_gazebo'' = Inr gz" and "lookup ''tello_description'' = Inr desc"
  shows "\<exists>es.
           generate_launch_description lookup = Inr (LaunchDescription es)
           \<and> length es = 11
           \<and> es ! 9 = Node
               \<lparr> package = ''fiducial_vlam'', node_executable = ''vloc_node'',
                 node_output = ''screen'', node_name = Some ''vloc_node'',
                 node_namespace = Some ''drone2'', arguments = None,
                 parameters = Some [[
                   (''use_sim_time'', PBool True),
                   (''publish_tfs'', PInt 1),
                   (''base_frame_id'', PStr ''base_link_2''),
                   (''map_init_pose_z'', PFloat (- 0.035)),
                   (''camera_frame_id'', PStr ''camera_link_2'')]] \<rparr>
           \<and> es ! 8 = Node
               \<lparr> package = ''tello_gazebo'', node_executable = ''inject_entity.py'',
                 node_output = ''screen'', node_name = None, node_namespace = None,
                 arguments = Some [join desc [''urdf'', ''tello_2.urdf''], ''0'', ''1'', ''1''],
                 parameters = None \<rparr>"
proof -
  have s: "suffix (Suc 0) = ''_2''"
    by (simp add: suffix_def str_def str_nat.simps digit_char_def)
  have one: "str 1 = ''1''"
    by (simp add: str_def str_nat.simps digit_char_def)
  show ?thesis
    unfolding generate_launch_description_def generate_for_resolved [OF assms]
    by (simp add: build_entities_def global_entities_def drone_entities_def
          vloc_node_def inject_entity_def urdf_path_def s one)
qed

theorem two_drone_scenario_witness:
  "share_under_opt ''tello_gazebo'' = Inr ''/opt/ros/share/tello_gazebo''
   \<and> share_under_opt ''tello_description'' = Inr ''/opt/ros/share/tello_description''
   \<and> (\<exists>es loc inj.
         generate_launch_description share_under_opt = Inr (LaunchDescription es)
         \<and> es ! 9 = Node loc \<and> node_namespace loc = Some ''drone2''
         \<and> node_param loc ''base_frame_id'' = Some (PStr ''base_link_2'')
         \<and> node_param loc ''camera_frame_id'' = Some (PStr ''camera_link_2'')
         \<and> es ! 8 = Node inj
         \<and> arguments inj
             = Some [''/opt/ros/share/tello_description/urdf/tello_2.urdf'', ''0'', ''1'', ''1''])"
proof -
  have gz: "share_under_opt ''tello_gazebo'' = Inr ''/opt/ros/share/tello_gazebo''"
    by (simp add: share_under_opt_def)
  have desc: "share_under_opt ''tello_description'' = Inr ''/opt/ros/share/tello_description''"
    by (simp add: share_under_opt_def)
  have j: "join ''/opt/ros/share/tello_description'' [''urdf'', ''tello_2.urdf'']
             = ''/opt/ros/share/tello_description/urdf/tello_2.urdf''"
    by (simp add: join_def join_step_def)
  from two_drone_scenario [OF gz desc] obtain es where
    es: "generate_launch_description share_under_opt = Inr (LaunchDescription es)"
    and loc: "es ! 9 = Node
               \<lparr> package = ''fiducial_vlam'', node_executable = ''vloc_node'',
                 node_output = ''screen'', node_name = Some ''vloc_node'',
                 node_namespace = Some ''drone2'', arguments = None,
                 parameters = Some [[
                   (''use_sim_time'', PBool True),
                   (''publish_tfs'', PInt 1),
                   (''base_frame_id'', PStr ''base_link_2''),
                   (''map_init_pose_z'', PFloat (- 0.035)),
                   (''camera_frame_id'', PStr ''camera_link_2'')]] \<rparr>"
    and inj: "es ! 8 = Node
               \<lparr> package = ''tello_gazebo'', node_executable = ''inject_entity.py'',
                 node_output = ''screen'', node_name = None, node_namespace = None,
                 arguments = Some [''/opt/ros/share/tello_description/urdf/tello_2.urdf'',
                                   ''0'', ''1'', ''1''],
                 parameters = None \<rparr>"
    unfolding j by blast
  show ?thesis
    using gz desc es by (simp add: loc inj node_param_def)
qed

text \<open>
  C8. For every roster the plan starts with the simulator process (\<open>gazebo\<close>), followed
  by the map loader \<^verbatim>\<open>vmap_node\<close>; its first five descriptors are the global ones, in the
  order of the source; after them come the blocks of three descriptors, one block per
  drone, the block of the drone at index \<open>i\<close> at positions \<open>5 + 3 * i\<close> to \<open>5 + 3 * i + 2\<close>.
  So every global descriptor is before every per-drone descriptor, and the blocks follow
  the order of the roster.
\<close>

theorem plan_order:
  assumes "lookup ''tello_gazebo'' = Inr gz" and "lookup ''tello_description'' = Inr desc"
  shows "\<exists>es.
           generate_launch_description_for lookup drones = Inr (LaunchDescription es)
           \<and> es ! 0 = gazebo_process gz \<and> entity_executable (es ! 0) = ''gazebo''
           \<and> es ! 1 = vmap_node gz \<and> entity_executable (es ! 1) = ''vmap_node''
           \<and> take 5 es = [gazebo_process gz, vmap_node gz, rviz_process, joy_node, flock_base drones]
           \<and> (\<forall>i<length drones.
                 take 3 (drop (5 + 3 * i) es)
                   = [inject_entity desc i, vloc_node i (drones ! i), drone_base (drones ! i)])
           \<and> length es = 5 + 3 * length drones"
proof -
  define es where "es = build_entities drones gz desc"
  have run: "generate_launch_description_for lookup drones = Inr (LaunchDescription es)"
    by (simp add: es_def generate_for_resolved [OF assms(1,2)])
  have g: "take 5 es = [gazebo_process gz, vmap_node gz, rviz_process, joy_node, flock_base drones]"
    by (simp add: es_def build_entities_global global_entities_def)
  have e0: "es ! 0 = gazebo_process gz"
    using build_entities_nth_global [of 0 drones gz desc] by (simp add: es_def global_entities_def)
  have e1: "es ! 1 = vmap_node gz"
    using build_entities_nth_global [of 1 drones gz desc] by (simp add: es_def global_entities_def)
  have x0: "entity_executable (es ! 0) = ''gazebo''"
    using e0 by (simp add: gazebo_process_def entity_executable_def)
  have x1: "entity_executable (es ! 1) = ''vmap_node''"
    using e1 by (simp add: vmap_node_def entity_executable_def)
  have blocks: "\<forall>i<length drones.
                 take 3 (drop (5 + 3 * i) es)
                   = [inject_entity desc i, vloc_node i (drones ! i), drone_base (drones ! i)]"
    by (simp add: es_def enumerate_block drone_entities_def)
  have len: "length es = 5 + 3 * length drones"
    by (simp add: es_def length_build_entities)
  from run g e0 e1 x0 x1 blocks len show ?thesis by blast
qed

theorem plan_order_witness:
  "share_under_opt ''tello_gazebo'' = Inr ''/opt/ros/share/tello_gazebo''
   \<and> share_under_opt ''tello_description'' = Inr ''/opt/ros/share/tello_description''
   \<and> (1::nat) < length [''alpha'', ''beta'']
   \<and> (\<exists>es.
         generate_launch_description_for share_under_opt [''alpha'', ''beta'']
           = Inr (LaunchDescription es)
         \<and> entity_executable (es ! 0) = ''gazebo''
         \<and> map entity_executable (take 5 es)
             = [''gazebo'', ''vmap_node'', ''rviz2'', ''joy_node'', ''flock_base'']
         \<and> map entity_namespace (take 3 (drop 8 es)) = [None, Some ''beta'', Some ''beta''])"
proof -
  have gz: "share_under_opt ''tello_gazebo'' = Inr ''/opt/ros/share/tello_gazebo''"
    by (simp add: share_under_opt_def)
  have desc: "share_under_opt ''tello_description'' = Inr ''/opt/ros/share/tello_description''"
    by (simp add: share_under_opt_def)
  have i: "(1::nat) < length [''alpha'', ''beta'']" by simp
  from plan_order [OF gz desc, of "[''alpha'', ''beta'']"] obtain es where
    run: "generate_launch_description_for share_under_opt [''alpha'', ''beta'']
           = Inr (LaunchDescription es)"
    and x0: "entity_executable (es ! 0) = ''gazebo''"
    and g: "take 5 es = [gazebo_process ''/opt/ros/share/tello_gazebo'',
              vmap_node ''/opt/ros/share/tello_gazebo'', rviz_process, joy_node,
              flock_base [''alpha'', ''beta'']]"
    and blocks: "\<forall>i<length [''alpha'', ''beta''].
                 take 3 (drop (5 + 3 * i) es)
                   = [inject_entity ''/opt/ros/share/tello_description'' i,
                      vloc_node i ([''alpha'', ''beta''] ! i),
                      drone_base ([''alpha'', ''beta''] ! i)]"
    by blast
  have b1: "take 3 (drop 8 es)
              = [inject_entity ''/opt/ros/share/tello_description'' 1,
                 vloc_node 1 ''beta'', drone_base ''beta'']"
    using blocks i by force
  show ?thesis
    using gz desc i run x0
    by (simp add: g b1 entity_executable_def entity_namespace_def gazebo_process_def
          vmap_node_def rviz_process_def joy_node_def flock_base_def inject_entity_def
          vloc_node_def drone_base_def)
qed

text \<open>
  C9. For the empty roster, once the two share directories resolve, the function
  returns (it does not raise) the plan of exactly the five global descriptors: the
  simulator process, the map loader, the visualizer process, the joystick node and the
  coordinator node, the last with an empty \<open>drones\<close> list.
\<close>

theorem empty_roster_plan:
  assumes "lookup ''tello_gazebo'' = Inr gz" and "lookup ''tello_description'' = Inr desc"
  shows "generate_launch_description_for lookup []
           = Inr (LaunchDescription
                    [gazebo_process gz, vmap_node gz, rviz_process, joy_node, flock_base []])"
  by (simp add: generate_for_resolved [OF assms] build_entities_def global_entities_def)

theorem empty_roster_plan_witness:
  "share_under_opt ''tello_gazebo'' = Inr ''/opt/ros/share/tello_gazebo''
   \<and> share_under_opt ''tello_description'' = Inr ''/opt/ros/share/tello_description''
   \<and> length (plan_entities (generate_launch_description_for share_under_opt [])) = 5
   \<and> map entity_executable (plan_entities (generate_launch_description_for share_under_opt []))
       = [''gazebo'', ''vmap_node'', ''rviz2'', ''joy_node'', ''flock_base'']"
proof -
  have gz: "share_under_opt ''tello_gazebo'' = Inr ''/opt/ros/share/tello_gazebo''"
    by (simp add: share_under_opt_def)
  have desc: "share_under_opt ''tello_description'' = Inr ''/opt/ros/share/tello_description''"
    by (simp add: share_under_opt_def)
  show ?thesis
    using gz desc
    by (simp add: empty_roster_plan [OF gz desc] plan_entities_def entity_executable_def
          gazebo_process_def vmap_node_def rviz_process_def joy_node_def flock_base_def)
qed

text \<open>
  C10, as stated: no node descriptor of the plan omits \<open>use_sim_time\<close>. The
  \<^verbatim>\<open>inject_entity.py\<close> node is a \<^verbatim>\<open>Node\<close> built with arguments and without parameters: in
  the plan of the script's own roster, the sixth descriptor is that node for \<open>drone1\<close>,
  and it gives \<open>use_sim_time\<close> no value.
\<close>

theorem spawn_node_omits_use_sim_time_counterexample:
  "plan_entities (generate_launch_description share_under_opt) ! 5
     = Node \<lparr> package = ''tello_gazebo'', node_executable = ''inject_entity.py'',
              node_output = ''screen'', node_name = None, node_namespace = None,
              arguments = Some [''/opt/ros/share/tello_description/urdf/tello_1.urdf'',
                                ''0'', ''0'', ''1''],
              parameters = None \<rparr>
   \<and> entity_param (plan_entities (generate_launch_description share_under_opt) ! 5)
         ''use_sim_time'' = None
   \<and> entity_param (plan_entities (generate_launch_description share_under_opt) ! 5)
         ''use_sim_time'' \<noteq> Some (PBool True)"
proof -
  have s: "suffix 0 = ''_1''" and z: "str 0 = ''0''"
    by (simp_all add: suffix_def str_def str_nat.simps digit_char_def)
  show ?thesis
    by (simp add: generate_launch_description_def generate_launch_description_for_def
          share_under_opt_def build_entities_def global_entities_def drone_entities_def
          plan_entities_def entity_param_def node_param_def inject_entity_def urdf_path_def
          join_def join_step_def s z)
qed

text \<open>
  C10, amended. The nodes that carry parameters are in the plan and each sets
  \<open>use_sim_time\<close> to \<open>True\<close>: the \<^verbatim>\<open>vmap_node\<close> (second descriptor), the \<^verbatim>\<open>joy_node\<close>
  (fourth), the \<^verbatim>\<open>flock_base\<close> node (fifth) and, for the drone at index \<open>i\<close>, its
  \<^verbatim>\<open>vloc_node\<close> and its \<^verbatim>\<open>drone_base\<close> node. Every node of the plan with parameters is one
  of these, and no node of the plan sets \<open>use_sim_time\<close> to \<open>False\<close>. Each drone's
  \<^verbatim>\<open>inject_entity.py\<close> node has no parameters, so it does not set \<open>use_sim_time\<close> at all,
  and these are the only nodes without parameters.
\<close>

theorem nodes_with_parameters_use_sim_time:
  assumes "lookup ''tello_gazebo'' = Inr gz" and "lookup ''tello_description'' = Inr desc"
  shows "\<exists>es.
           generate_launch_description_for lookup drones = Inr (LaunchDescription es)
           \<and> entity_executable (es ! 1) = ''vmap_node''
           \<and> entity_param (es ! 1) ''use_sim_time'' = Some (PBool True)
           \<and> entity_executable (es ! 3) = ''joy_node''
           \<and> entity_param (es ! 3) ''use_sim_time'' = Some (PBool True)
           \<and> entity_executable (es ! 4) = ''flock_base''
           \<and> entity_param (es ! 4) ''use_sim_time'' = Some (PBool True)
           \<and> (\<forall>i<length drones.
                 entity_executable (es ! (5 + 3 * i + 1)) = ''vloc_node''
                 \<and> entity_param (es ! (5 + 3 * i + 1)) ''use_sim_time'' = Some (PBool True)
                 \<and> entity_executable (es ! (5 + 3 * i + 2)) = ''drone_base''
                 \<and> entity_param (es ! (5 + 3 * i + 2)) ''use_sim_time'' = Some (PBool True)
                 \<and> es ! (5 + 3 * i) = inject_entity desc i
                 \<and> entity_param (es ! (5 + 3 * i)) ''use_sim_time'' = None)
           \<and> (\<forall>n ds. Node n \<in> set es \<and> parameters n = Some ds \<longrightarrow>
                 node_param n ''use_sim_time'' = Some (PBool True)
                 \<and> node_executable n
                     \<in> {''vmap_node'', ''joy_node'', ''flock_base'', ''vloc_node'', ''drone_base''})
           \<and> (\<forall>n. Node n \<in> set es \<and> parameters n = None \<longrightarrow>
                 node_executable n = ''inject_entity.py'')
           \<and> (\<forall>n. Node n \<in> set es \<longrightarrow> node_param n ''use_sim_time'' \<noteq> Some (PBool False))"
proof -
  define es where "es = build_entities drones gz desc"
  have run: "generate_launch_description_for lookup drones = Inr (LaunchDescription es)"
    by (simp add: es_def generate_for_resolved [OF assms(1,2)])
  have g1: "entity_executable (es ! 1) = ''vmap_node''
            \<and> entity_param (es ! 1) ''use_sim_time'' = Some (PBool True)"
    using build_entities_nth_global [of 1 drones gz desc]
    by (simp add: es_def global_entities_def vmap_node_def entity_executable_def
          entity_param_def node_param_def)
  have g3: "entity_executable (es ! 3) = ''joy_node''
            \<and> entity_param (es ! 3) ''use_sim_time'' = Some (PBool True)"
    using build_entities_nth_global [of 3 drones gz desc]
    by (simp add: es_def global_entities_def joy_node_def entity_executable_def
          entity_param_def node_param_def)
  have g4: "entity_executable (es ! 4) = ''flock_base''
            \<and> entity_param (es ! 4) ''use_sim_time'' = Some (PBool True)"
    using build_entities_nth_global [of 4 drones gz desc]
    by (simp add: es_def global_entities_def flock_base_def entity_executable_def
          entity_param_def node_param_def)
  have per_drone: "\<forall>i<length drones.
                 entity_executable (es ! (5 + 3 * i + 1)) = ''vloc_node''
                 \<and> entity_param (es ! (5 + 3 * i + 1)) ''use_sim_time'' = Some (PBool True)
                 \<and> entity_executable (es ! (5 + 3 * i + 2)) = ''drone_base''
                 \<and> entity_param (es ! (5 + 3 * i + 2)) ''use_sim_time'' = Some (PBool True)
                 \<and> es ! (5 + 3 * i) = inject_entity desc i
                 \<and> entity_param (es ! (5 + 3 * i)) ''use_sim_time'' = None"
  proof (intro allI impI)
    fix i assume i: "i < length drones"
    have inj: "es ! (5 + 3 * i) = inject_entity desc i"
      using build_entities_nth_drone [OF i, of 0 gz desc]
      by (simp add: es_def drone_entities_def)
    have loc: "es ! (5 + 3 * i + 1) = vloc_node i (drones ! i)"
      using build_entities_nth_drone [OF i, of 1 gz desc]
      by (simp add: es_def drone_entities_def)
    have ctl: "es ! (5 + 3 * i + 2) = drone_base (drones ! i)"
      using build_entities_nth_drone [OF i, of 2 gz desc]
      by (simp add: es_def drone_entities_def)
    show "entity_executable (es ! (5 + 3 * i + 1)) = ''vloc_node''
          \<and> entity_param (es ! (5 + 3 * i + 1)) ''use_sim_time'' = Some (PBool True)
          \<and> entity_executable (es ! (5 + 3 * i + 2)) = ''drone_base''
          \<and> entity_param (es ! (5 + 3 * i + 2)) ''use_sim_time'' = Some (PBool True)
          \<and> es ! (5 + 3 * i) = inject_entity desc i
          \<and> entity_param (es ! (5 + 3 * i)) ''use_sim_time'' = None"
      unfolding inj loc ctl
      by (simp add: inject_entity_def vloc_node_def drone_base_def entity_executable_def
            entity_param_def node_param_def)
  qed
  have kinds: "Node n \<in> set es \<Longrightarrow>
                 (parameters n = None \<and> node_executable n = ''inject_entity.py'')
                 \<or> (parameters n \<noteq> None \<and> node_param n ''use_sim_time'' = Some (PBool True)
                     \<and> node_executable n
                         \<in> {''vmap_node'', ''joy_node'', ''flock_base'', ''vloc_node'', ''drone_base''})"
    for n
  proof -
    assume "Node n \<in> set es"
    then consider "Node n \<in> set (global_entities drones gz)"
      | i where "Node n \<in> set (drone_entities desc i (drones ! i))"
      unfolding es_def using in_build_entities by blast
    then show ?thesis
    proof cases
      case 1
      then show ?thesis
        by (auto simp: global_entities_def gazebo_process_def vmap_node_def rviz_process_def
              joy_node_def flock_base_def node_param_def)
    next
      case 2
      then show ?thesis
        by (auto simp: drone_entities_def inject_entity_def vloc_node_def drone_base_def
              node_param_def)
    qed
  qed
  have a: "\<forall>n ds. Node n \<in> set es \<and> parameters n = Some ds \<longrightarrow>
                 node_param n ''use_sim_time'' = Some (PBool True)
                 \<and> node_executable n
                     \<in> {''vmap_node'', ''joy_node'', ''flock_base'', ''vloc_node'', ''drone_base''}"
    using kinds by fastforce
  have b: "\<forall>n. Node n \<in> set es \<and> parameters n = None \<longrightarrow>
                 node_executable n = ''inject_entity.py''"
    using kinds by fastforce
  have c: "\<forall>n. Node n \<in> set es \<longrightarrow> node_param n ''use_sim_time'' \<noteq> Some (PBool False)"
  proof (intro allI impI)
    fix n assume "Node n \<in> set es"
    from kinds [OF this] show "node_param n ''use_sim_time'' \<noteq> Some (PBool False)"
      by (auto simp: node_param_def)
  qed
  from run g1 g3 g4 per_drone a b c show ?thesis by blast
qed

theorem nodes_with_parameters_use_sim_time_witness:
  "share_under_opt ''tello_gazebo'' = Inr ''/opt/ros/share/tello_gazebo''
   \<and> share_under_opt ''tello_description'' = Inr ''/opt/ros/share/tello_description''
   \<and> (0::nat) < length [''drone1'']
   \<and> (\<exists>es n ds.
         generate_launch_description_for share_under_opt [''drone1'']
           = Inr (LaunchDescription es)
         \<and> entity_param (es ! 3) ''use_sim_time'' = Some (PBool True)
         \<and> entity_param (es ! 6) ''use_sim_time'' = Some (PBool True)
         \<and> entity_param (es ! 7) ''use_sim_time'' = Some (PBool True)
         \<and> entity_param (es ! 5) ''use_sim_time'' = None
         \<and> Node n \<in> set es \<and> parameters n = Some ds \<and> node_namespace n = Some ''drone1''
         \<and> node_param n ''use_sim_time'' = Some (PBool True)
         \<and> node_executable n
             \<in> {''vmap_node'', ''joy_node'', ''flock_base'', ''vloc_node'', ''drone_base''})"
proof -
  have gz: "share_under_opt ''tello_gazebo'' = Inr ''/opt/ros/share/tello_gazebo''"
    by (simp add: share_under_opt_def)
  have desc: "share_under_opt ''tello_description'' = Inr ''/opt/ros/share/tello_description''"
    by (simp add: share_under_opt_def)
  have i: "(0::nat) < length [''drone1'']" by simp
  from nodes_with_parameters_use_sim_time [OF gz desc, of "[''drone1'']"] obtain es where
    run: "generate_launch_description_for share_under_opt [''drone1'']
            = Inr (LaunchDescription es)"
    and joy: "entity_param (es ! 3) ''use_sim_time'' = Some (PBool True)"
    and per_drone: "\<forall>i<length [''drone1''].
                 entity_executable (es ! (5 + 3 * i + 1)) = ''vloc_node''
                 \<and> entity_param (es ! (5 + 3 * i + 1)) ''use_sim_time'' = Some (PBool True)
                 \<and> entity_executable (es ! (5 + 3 * i + 2)) = ''drone_base''
                 \<and> entity_param (es ! (5 + 3 * i + 2)) ''use_sim_time'' = Some (PBool True)
                 \<and> es ! (5 + 3 * i) = inject_entity ''/opt/ros/share/tello_description'' i
                 \<and> entity_param (es ! (5 + 3 * i)) ''use_sim_time'' = None"
    and par: "\<forall>n ds. Node n \<in> set es \<and> parameters n = Some ds \<longrightarrow>
                 node_param n ''use_sim_time'' = Some (PBool True)
                 \<and> node_executable n
                     \<in> {''vmap_node'', ''joy_node'', ''flock_base'', ''vloc_node'', ''drone_base''}"
    by blast
  from per_drone i have d0:
    "entity_param (es ! 6) ''use_sim_time'' = Some (PBool True)"
    "entity_param (es ! 7) ''use_sim_time'' = Some (PBool True)"
    "entity_param (es ! 5) ''use_sim_time'' = None"
    by force+
  have "es = build_entities [''drone1''] ''/opt/ros/share/tello_gazebo''
               ''/opt/ros/share/tello_description''"
    using run by (simp add: generate_for_resolved [OF gz desc])
  then have mem: "drone_base ''drone1'' \<in> set es"
    by (simp add: build_entities_def drone_entities_def)
  obtain n where n: "drone_base ''drone1'' = Node n"
    "parameters n = Some [[(''use_sim_time'', PBool True)]]" "node_namespace n = Some ''drone1''"
    by (simp add: drone_base_def)
  from par mem n have
    "node_param n ''use_sim_time'' = Some (PBool True)
     \<and> node_executable n
         \<in> {''vmap_node'', ''joy_node'', ''flock_base'', ''vloc_node'', ''drone_base''}"
    by metis
  with gz desc i run joy d0 mem n show ?thesis by metis
qed

end
